theory Spec2Isabelle
  imports Main
begin

section \<open>Errors as values\<close>

text \<open>
  The TypeScript code signals failure by throwing (or by rejecting a promise).  Every
  function below that can throw returns a sum: \<open>Inl\<close> carries the thrown value.

  \<open>HardhatError\<close> is the class of \<^verbatim>\<open>core/errors\<close>; its constructor takes an error
  descriptor, the message arguments (always \<^verbatim>\<open>{}\<close> here) and an optional parent error.
  The only descriptor the compiler module uses is
  \<^verbatim>\<open>ERRORS.SOLC.CANT_RUN_NATIVE_COMPILER\<close>.  Every other thrown value (a
  \<^verbatim>\<open>TypeError\<close> of semver, a \<^verbatim>\<open>SyntaxError\<close> of \<^verbatim>\<open>JSON.parse\<close>, the error object
  of \<^verbatim>\<open>child_process\<close>, an errno error of \<^verbatim>\<open>fs\<close>) is a \<open>JsError\<close> with its name and
  its message or code.
\<close>

datatype error_descriptor = CANT_RUN_NATIVE_COMPILER

datatype js_error =
    JsError string string
  | HardhatError error_descriptor "js_error option"

fun descriptor :: "js_error \<Rightarrow> error_descriptor option" where
  "descriptor (JsError _ _) = None"
| "descriptor (HardhatError d _) = Some d"

fun parent :: "js_error \<Rightarrow> js_error option" where
  "parent (JsError _ _) = None"
| "parent (HardhatError _ p) = p"

section \<open>The semver package: \<^verbatim>\<open>semver.gte\<close>\<close>

text \<open>
  \<^verbatim>\<open>semver.gte(a, b)\<close> is \<^verbatim>\<open>new SemVer(a).compare(new SemVer(b)) >= 0\<close> in strict
  mode.  The constructor rejects a string of more than 256 UTF-16 code units, trims it
  and matches it against
  \<^verbatim>\<open>^v?(0|[1-9]\d*)\.(0|[1-9]\d*)\.(0|[1-9]\d*)(?:-(PRE(?:\.PRE)*))?(?:\+(BUILD(?:\.BUILD)*))?$\<close>
  where \<^verbatim>\<open>PRE\<close> is \<^verbatim>\<open>0|[1-9]\d*|\d*[a-zA-Z-][a-zA-Z0-9-]*\<close> and \<^verbatim>\<open>BUILD\<close> is
  \<^verbatim>\<open>[0-9A-Za-z-]+\<close>; a string that does not match, or a component above
  \<^verbatim>\<open>Number.MAX_SAFE_INTEGER\<close>, is a \<^verbatim>\<open>TypeError\<close>.

  A JavaScript string is modelled by the bytes of its UTF-8 encoding, one \<open>char\<close> for
  each byte.  The characters that the pattern accepts are ASCII, one byte each.
\<close>

definition is_digit :: "char \<Rightarrow> bool" where
  "is_digit c = (c \<in> set ''0123456789'')"

definition is_letter_or_hyphen :: "char \<Rightarrow> bool" where
  "is_letter_or_hyphen c =
     (c \<in> set ''abcdefghijklmnopqrstuvwxyzABCDEFGHIJKLMNOPQRSTUVWXYZ-'')"

text \<open>
  \<^verbatim>\<open>String.prototype.trim\<close> removes, at both ends, the code points of \<^verbatim>\<open>WhiteSpace\<close> and
  \<^verbatim>\<open>LineTerminator\<close>: U+0009 to U+000D, U+0020, U+00A0, U+1680, U+2000 to U+200A, U+2028,
  U+2029, U+202F, U+205F, U+3000 and U+FEFF.  These are their UTF-8 encodings.
\<close>

definition whitespace_encodings :: "string list" where
  "whitespace_encodings =
     map (\<lambda>b. [b]) [CHR 0x09, CHR 0x0A, CHR 0x0B, CHR 0x0C, CHR 0x0D, CHR 0x20]
     @ [[CHR 0xC2, CHR 0xA0], [CHR 0xE1, CHR 0x9A, CHR 0x80]]
     @ map (\<lambda>b. [CHR 0xE2, CHR 0x80, b])
         [CHR 0x80, CHR 0x81, CHR 0x82, CHR 0x83, CHR 0x84, CHR 0x85, CHR 0x86, CHR 0x87,
          CHR 0x88, CHR 0x89, CHR 0x8A, CHR 0xA8, CHR 0xA9, CHR 0xAF]
     @ [[CHR 0xE2, CHR 0x81, CHR 0x9F], [CHR 0xE3, CHR 0x80, CHR 0x80],
        [CHR 0xEF, CHR 0xBB, CHR 0xBF]]"

text \<open>Remove, from the front of the text, every leading occurrence of one of the words.\<close>

function strip_leading :: "string list \<Rightarrow> string \<Rightarrow> string" where
  "strip_leading ws s =
     (case find (\<lambda>w. w \<noteq> [] \<and> take (length w) s = w) ws of
        None \<Rightarrow> s
      | Some w \<Rightarrow> strip_leading ws (drop (length w) s))"
  by pat_completeness auto
termination
proof (relation "measure (\<lambda>(ws, s). length s)")
  show "wf (measure (\<lambda>(ws, s). length s))" by simp
next
  fix ws :: "string list" and s w :: string
  assume "find (\<lambda>w. w \<noteq> [] \<and> take (length w) s = w) ws = Some w"
  then have w: "w \<noteq> []" "take (length w) s = w"
    by (auto simp: find_Some_iff)
  then have "s \<noteq> []" by auto
  with w(1) show "((ws, drop (length w) s), (ws, s)) \<in> measure (\<lambda>(ws, s). length s)"
    by simp
qed

declare strip_leading.simps [simp del]

text \<open>
  At the end of the text the encodings are matched backwards; UTF-8 is
  self-synchronising, so the text ends with the bytes of an encoding exactly when its
  last code point is the encoded one.
\<close>

definition trim :: "string \<Rightarrow> string" where
  "trim s =
     rev (strip_leading (map rev whitespace_encodings)
            (rev (strip_leading whitespace_encodings s)))"

text \<open>
  \<^verbatim>\<open>String.prototype.length\<close> counts UTF-16 code units: one for each code point, and
  one more for a code point beyond U+FFFF, whose encoding starts with a byte
  \<^verbatim>\<open>11110xxx\<close>.  A byte \<^verbatim>\<open>10xxxxxx\<close> continues a code point.
\<close>

definition continuation_byte :: "char \<Rightarrow> bool" where
  "continuation_byte c = (digit7 c \<and> \<not> digit6 c)"

definition four_byte_lead :: "char \<Rightarrow> bool" where
  "four_byte_lead c = (digit7 c \<and> digit6 c \<and> digit5 c \<and> digit4 c)"

definition js_length :: "string \<Rightarrow> nat" where
  "js_length s =
     length (filter (\<lambda>c. \<not> continuation_byte c) s) + length (filter four_byte_lead s)"

text \<open>\<^verbatim>\<open>String.prototype.split\<close> on a one-character separator: never an empty list.\<close>

fun split_on :: "char \<Rightarrow> string \<Rightarrow> string list" where
  "split_on sep [] = [[]]"
| "split_on sep (c # cs) =
     (if c = sep then [] # split_on sep cs
      else (case split_on sep cs of
              [] \<Rightarrow> [[c]]
            | w # ws \<Rightarrow> (c # w) # ws))"

text \<open>The text before the first separator, and the text after it when there is one.\<close>

fun split_first :: "char \<Rightarrow> string \<Rightarrow> string \<times> string option" where
  "split_first sep [] = ([], None)"
| "split_first sep (c # cs) =
     (if c = sep then ([], Some cs)
      else (case split_first sep cs of (a, b) \<Rightarrow> (c # a, b)))"

text \<open>The value of a decimal digit: its position among the ten digits.\<close>

definition digit_val :: "char \<Rightarrow> nat" where
  "digit_val c = length (takeWhile (\<lambda>d. d \<noteq> c) ''0123456789'')"

definition nat_of_digits :: "string \<Rightarrow> nat" where
  "nat_of_digits s = foldl (\<lambda>n c. 10 * n + digit_val c) 0 s"

definition all_digits :: "string \<Rightarrow> bool" where
  "all_digits s = (s \<noteq> [] \<and> list_all is_digit s)"

text \<open>\<^verbatim>\<open>0|[1-9]\d*\<close>\<close>

definition numeric_identifier :: "string \<Rightarrow> bool" where
  "numeric_identifier s = (s = ''0'' \<or> (all_digits s \<and> hd s \<noteq> CHR ''0''))"

text \<open>\<^verbatim>\<open>\d*[a-zA-Z-][a-zA-Z0-9-]*\<close>\<close>

definition non_numeric_identifier :: "string \<Rightarrow> bool" where
  "non_numeric_identifier s =
     (list_all (\<lambda>c. is_digit c \<or> is_letter_or_hyphen c) s \<and> list_ex is_letter_or_hyphen s)"

definition prerelease_identifier :: "string \<Rightarrow> bool" where
  "prerelease_identifier s = (numeric_identifier s \<or> non_numeric_identifier s)"

definition build_identifier :: "string \<Rightarrow> bool" where
  "build_identifier s = (s \<noteq> [] \<and> list_all (\<lambda>c. is_digit c \<or> is_letter_or_hyphen c) s)"

definition MAX_LENGTH :: nat where
  "MAX_LENGTH = 256"

definition MAX_SAFE_INTEGER :: nat where
  "MAX_SAFE_INTEGER = 9007199254740991"

datatype pre_id = PNum nat | PStr string

record SemVer =
  major :: nat
  minor :: nat
  patch :: nat
  prerelease :: "pre_id list"
  build :: "string list"

text \<open>
  A prerelease identifier made of digits only becomes a number when it is below
  \<^verbatim>\<open>MAX_SAFE_INTEGER\<close>, and stays a string otherwise.
\<close>

definition to_pre_id :: "string \<Rightarrow> pre_id" where
  "to_pre_id s =
     (if all_digits s \<and> nat_of_digits s < MAX_SAFE_INTEGER then PNum (nat_of_digits s)
      else PStr s)"

definition invalid_version :: "string \<Rightarrow> js_error" where
  "invalid_version v = JsError ''TypeError'' (''Invalid Version: '' @ v)"

text \<open>The optional leading \<^verbatim>\<open>v\<close> of the pattern.\<close>

fun strip_v :: "string \<Rightarrow> string" where
  "strip_v [] = []"
| "strip_v (c # cs) = (if c = CHR ''v'' then cs else c # cs)"

text \<open>The dot-separated identifiers of an optional group; none when the group is absent.\<close>

fun group_ids :: "string option \<Rightarrow> string list" where
  "group_ids None = []"
| "group_ids (Some g) = split_on (CHR ''.'') g"

text \<open>The range checks of the constructor, in its order: major, minor, patch.\<close>

definition make_SemVer ::
  "nat \<Rightarrow> nat \<Rightarrow> nat \<Rightarrow> string list \<Rightarrow> string list \<Rightarrow> js_error + SemVer" where
  "make_SemVer ma mi pa pre_ids bld_ids =
     (if ma > MAX_SAFE_INTEGER then Inl (JsError ''TypeError'' ''Invalid major version'')
      else if mi > MAX_SAFE_INTEGER then Inl (JsError ''TypeError'' ''Invalid minor version'')
      else if pa > MAX_SAFE_INTEGER then Inl (JsError ''TypeError'' ''Invalid patch version'')
      else Inr \<lparr> major = ma, minor = mi, patch = pa, prerelease = map to_pre_id pre_ids,
                 build = bld_ids \<rparr>)"

text \<open>
  The match of the pattern on the trimmed text: exactly three numeric identifiers, then
  well-formed prerelease and build identifiers.  The first argument is the untrimmed
  text, which the error message quotes.
\<close>

fun match_FULL :: "string \<Rightarrow> string list \<Rightarrow> string list \<Rightarrow> string list \<Rightarrow> js_error + SemVer" where
  "match_FULL version [ma, mi, pa] pre_ids bld_ids =
     (if numeric_identifier ma \<and> numeric_identifier mi \<and> numeric_identifier pa
         \<and> list_all prerelease_identifier pre_ids \<and> list_all build_identifier bld_ids
      then make_SemVer (nat_of_digits ma) (nat_of_digits mi) (nat_of_digits pa) pre_ids bld_ids
      else Inl (invalid_version version))"
| "match_FULL version _ pre_ids bld_ids = Inl (invalid_version version)"

text \<open>
  The build group starts at the first \<^verbatim>\<open>+\<close> (a prerelease has none); in what precedes
  it the prerelease group starts at the first \<^verbatim>\<open>-\<close> (the main version has none).
\<close>

definition parse_trimmed :: "string \<Rightarrow> string \<Rightarrow> js_error + SemVer" where
  "parse_trimmed version t =
     (case split_first (CHR ''+'') (strip_v t) of
        (body, bld) \<Rightarrow>
          (case split_first (CHR ''-'') body of
             (mainv, pre) \<Rightarrow>
               match_FULL version (split_on (CHR ''.'') mainv) (group_ids pre) (group_ids bld)))"

definition new_SemVer :: "string \<Rightarrow> js_error + SemVer" where
  "new_SemVer version =
     (if js_length version > MAX_LENGTH
      then Inl (JsError ''TypeError'' ''version is longer than 256 characters'')
      else parse_trimmed version (trim version))"

text \<open>Comparison results are \<open>-1\<close>, \<open>0\<close> and \<open>1\<close>, as in the package.\<close>

definition compare_nat :: "nat \<Rightarrow> nat \<Rightarrow> int" where
  "compare_nat a b = (if a = b then 0 else if a < b then -1 else 1)"

text \<open>
  JavaScript's \<^verbatim>\<open><\<close> on strings: lexicographic on the code units.  It is applied to
  prerelease identifiers only, which are ASCII, so code units and bytes agree.
\<close>

fun str_less :: "string \<Rightarrow> string \<Rightarrow> bool" where
  "str_less [] [] = False"
| "str_less [] (b # bs) = True"
| "str_less (a # as) [] = False"
| "str_less (a # as) (b # bs) =
     (if a = b then str_less as bs else (of_char a :: nat) < of_char b)"

text \<open>
  \<^verbatim>\<open>compareIdentifiers\<close>: two numeric identifiers compare as numbers, a numeric one is
  below a non-numeric one, two non-numeric ones compare as strings.  (A digit string
  that stayed a string because it is not below \<^verbatim>\<open>MAX_SAFE_INTEGER\<close> is numeric for this
  test; the package compares such values as doubles, the model compares them exactly.)
\<close>

fun pre_id_numeric :: "pre_id \<Rightarrow> bool" where
  "pre_id_numeric (PNum _) = True"
| "pre_id_numeric (PStr s) = all_digits s"

fun pre_id_num :: "pre_id \<Rightarrow> nat" where
  "pre_id_num (PNum n) = n"
| "pre_id_num (PStr s) = nat_of_digits s"

fun pre_id_str :: "pre_id \<Rightarrow> string" where
  "pre_id_str (PStr s) = s"
| "pre_id_str (PNum n) = []"

definition compareIdentifiers :: "pre_id \<Rightarrow> pre_id \<Rightarrow> int" where
  "compareIdentifiers a b =
     (if pre_id_numeric a \<and> pre_id_numeric b then compare_nat (pre_id_num a) (pre_id_num b)
      else if a = b then 0
      else if pre_id_numeric a \<and> \<not> pre_id_numeric b then -1
      else if pre_id_numeric b \<and> \<not> pre_id_numeric a then 1
      else if str_less (pre_id_str a) (pre_id_str b) then -1 else 1)"

definition compareMain :: "SemVer \<Rightarrow> SemVer \<Rightarrow> int" where
  "compareMain a b =
     (if compare_nat (major a) (major b) \<noteq> 0 then compare_nat (major a) (major b)
      else if compare_nat (minor a) (minor b) \<noteq> 0 then compare_nat (minor a) (minor b)
      else compare_nat (patch a) (patch b))"

text \<open>The \<^verbatim>\<open>do ... while (++i)\<close> loop of \<^verbatim>\<open>comparePre\<close>, walking both lists.\<close>

fun comparePreLoop :: "pre_id list \<Rightarrow> pre_id list \<Rightarrow> int" where
  "comparePreLoop [] [] = 0"
| "comparePreLoop (a # as) [] = 1"
| "comparePreLoop [] (b # bs) = -1"
| "comparePreLoop (a # as) (b # bs) =
     (if a = b then comparePreLoop as bs else compareIdentifiers a b)"

definition comparePre :: "SemVer \<Rightarrow> SemVer \<Rightarrow> int" where
  "comparePre a b =
     (if prerelease a \<noteq> [] \<and> prerelease b = [] then -1
      else if prerelease a = [] \<and> prerelease b \<noteq> [] then 1
      else if prerelease a = [] \<and> prerelease b = [] then 0
      else comparePreLoop (prerelease a) (prerelease b))"

definition compare :: "SemVer \<Rightarrow> SemVer \<Rightarrow> int" where
  "compare a b = (if compareMain a b \<noteq> 0 then compareMain a b else comparePre a b)"

definition gte :: "string \<Rightarrow> string \<Rightarrow> js_error + bool" where
  "gte a b =
     (case new_SemVer a of
        Inl e \<Rightarrow> Inl e
      | Inr sa \<Rightarrow>
          (case new_SemVer b of
             Inl e \<Rightarrow> Inl e
           | Inr sb \<Rightarrow> Inr (compare sa sb \<ge> 0)))"

section \<open>Node's \<^verbatim>\<open>path.join\<close> on a POSIX host\<close>

text \<open>
  \<^verbatim>\<open>path.join\<close> joins its non-empty arguments with \<^verbatim>\<open>/\<close> and normalises the result:
  empty segments and \<^verbatim>\<open>.\<close> are dropped, \<^verbatim>\<open>..\<close> removes the segment before it (and is
  kept only in a relative path that has nothing left to remove), a trailing slash is
  kept.  The host is taken to be a POSIX one; \<^verbatim>\<open>os.tmpdir()\<close> is a parameter of the host.
\<close>

fun join_with :: "char \<Rightarrow> string list \<Rightarrow> string" where
  "join_with sep [] = []"
| "join_with sep [x] = x"
| "join_with sep (x # y # ys) = x @ sep # join_with sep (y # ys)"

definition normalize_step :: "bool \<Rightarrow> string list \<Rightarrow> string \<Rightarrow> string list" where
  "normalize_step allowAboveRoot res seg =
     (if seg = [] \<or> seg = ''.'' then res
      else if seg = ''..'' then
        (if res \<noteq> [] \<and> last res \<noteq> ''..'' then butlast res
         else if allowAboveRoot then res @ [''..'']
         else res)
      else res @ [seg])"

definition normalizeString :: "string \<Rightarrow> bool \<Rightarrow> string" where
  "normalizeString path allowAboveRoot =
     join_with (CHR ''/'')
       (foldl (normalize_step allowAboveRoot) [] (split_on (CHR ''/'') path))"

definition normalize :: "string \<Rightarrow> string" where
  "normalize path =
     (if path = [] then ''.''
      else
        let isAbsolute = (hd path = CHR ''/'');
            trailingSeparator = (last path = CHR ''/'');
            p = normalizeString path (\<not> isAbsolute)
        in if p = [] then (if isAbsolute then ''/'' else if trailingSeparator then ''./'' else ''.'')
           else (if isAbsolute then ''/'' else []) @ p @ (if trailingSeparator then ''/'' else []))"

definition path_join :: "string list \<Rightarrow> string" where
  "path_join args =
     (case filter (\<lambda>a. a \<noteq> []) args of
        [] \<Rightarrow> ''.''
      | parts \<Rightarrow> normalize (join_with (CHR ''/'') parts))"

section \<open>The file system and \<^verbatim>\<open>fs.mkdirSync(p, { recursive: true })\<close>\<close>

text \<open>
  What the compiler needs of the file system: which paths exist, as a file or as a
  directory, and where the process may create an entry.  A recursive \<^verbatim>\<open>mkdirSync\<close>
  walks the path from its first component: a component that is a directory is kept, one
  that is a file makes the call throw (\<^verbatim>\<open>ENOTDIR\<close>, or \<^verbatim>\<open>EEXIST\<close> for the path itself),
  one that is missing is created where the process may write and makes the call throw
  \<^verbatim>\<open>EACCES\<close> where it may not.  Directories created before a failure stay.
\<close>

datatype node = File | Dir

record filesystem =
  nodes :: "string \<Rightarrow> node option"
  writable :: "string \<Rightarrow> bool"

fun path_prefixes :: "string \<Rightarrow> string list \<Rightarrow> string list" where
  "path_prefixes pre [] = []"
| "path_prefixes pre (s # ss) = (pre @ s) # path_prefixes (pre @ s @ ''/'') ss"

definition ancestors :: "string \<Rightarrow> string list" where
  "ancestors p = filter (\<lambda>q. q \<noteq> []) (path_prefixes [] (split_on (CHR ''/'') p))"

fun mkdir_each :: "filesystem \<Rightarrow> string list \<Rightarrow> js_error option \<times> filesystem" where
  "mkdir_each f [] = (None, f)"
| "mkdir_each f (p # ps) =
     (case nodes f p of
        Some Dir \<Rightarrow> mkdir_each f ps
      | Some File \<Rightarrow> (Some (JsError ''Error'' (if ps = [] then ''EEXIST'' else ''ENOTDIR'')), f)
      | None \<Rightarrow>
          if writable f p then mkdir_each (f\<lparr>nodes := (nodes f)(p \<mapsto> Dir)\<rparr>) ps
          else (Some (JsError ''Error'' ''EACCES''), f))"

definition mkdirSync_recursive :: "filesystem \<Rightarrow> string \<Rightarrow> js_error option \<times> filesystem" where
  "mkdirSync_recursive f p = mkdir_each f (ancestors p)"

section \<open>The host of the native compiler\<close>

text \<open>
  \<^verbatim>\<open>child_process.execFile(file, args, options, callback)\<close> either throws while the
  spawn is set up, or returns a child process.  The child has an input stream (or
  \<^verbatim>\<open>null\<close>), whose \<^verbatim>\<open>write\<close> and \<^verbatim>\<open>end\<close> may throw; once the executor has returned, the
  callback is called with \<^verbatim>\<open>(err, stdout)\<close>, which depend on the text written to the
  stream.  \<^verbatim>\<open>JSON.stringify\<close> and \<^verbatim>\<open>JSON.parse\<close> are the host's, on the opaque types of
  \<^verbatim>\<open>CompilerInput\<close> and \<^verbatim>\<open>CompilerOutput\<close>.
\<close>

record stdin_stream =
  stdin_write :: "string \<Rightarrow> js_error option"
  stdin_end :: "js_error option"

record child_process =
  stdin :: "stdin_stream option"
  callback_args :: "string \<Rightarrow> js_error option \<times> string"

datatype exec_result = ExecThrows js_error | ChildProcess child_process

record ('i, 'o) json_host =
  JSON_stringify :: "'i \<Rightarrow> string"
  JSON_parse :: "string \<Rightarrow> js_error + 'o"

record ('i, 'o) node_host = "('i, 'o) json_host" +
  tmpdir :: string
  execFile :: "string \<Rightarrow> string list \<Rightarrow> nat \<Rightarrow> exec_result"

section \<open>\<^verbatim>\<open>NativeCompiler\<close>\<close>

record NativeCompiler =
  pathToSolc :: string
  solcVersion :: "string option"

text \<open>
  Lines 77 to 92 of \<^verbatim>\<open>compile\<close>: the argument list.  An exception of \<^verbatim>\<open>semver.gte\<close> or
  of \<^verbatim>\<open>mkdirSync\<close> leaves \<^verbatim>\<open>compile\<close> before anything is spawned.
\<close>

definition tmpFolder :: "('i, 'o) node_host \<Rightarrow> string" where
  "tmpFolder h = path_join [tmpdir h, ''hardhat-solc'']"

definition compile_args ::
  "('i, 'o) node_host \<Rightarrow> string option \<Rightarrow> filesystem \<Rightarrow> (js_error + string list) \<times> filesystem" where
  "compile_args h version f =
     (case version of
        None \<Rightarrow> (Inr [''--standard-json''], f)
      | Some v \<Rightarrow>
          (case gte v ''0.8.22'' of
             Inl e \<Rightarrow> (Inl e, f)
           | Inr True \<Rightarrow> (Inr [''--standard-json'', ''--no-import-callback''], f)
           | Inr False \<Rightarrow>
               (case gte v ''0.6.9'' of
                  Inl e \<Rightarrow> (Inl e, f)
                | Inr True \<Rightarrow>
                    (case mkdirSync_recursive f (tmpFolder h) of
                       (Some e, f') \<Rightarrow> (Inl e, f')
                     | (None, f') \<Rightarrow>
                         (Inr [''--standard-json'', ''--base-path'', tmpFolder h], f'))
                | Inr False \<Rightarrow> (Inr [''--standard-json''], f))))"

text \<open>
  Lines 94 to 115: the promise.  An exception inside the \<^verbatim>\<open>try\<close> block is caught and
  rethrown as a \<open>HardhatError\<close> with the caught value as its parent; thrown inside the
  executor, it rejects the promise, and a later \<^verbatim>\<open>reject\<close> or \<^verbatim>\<open>resolve\<close> of the callback
  has no effect.  Otherwise the callback settles the promise: \<^verbatim>\<open>reject(err)\<close> when
  \<^verbatim>\<open>err\<close> is not \<^verbatim>\<open>null\<close>, \<^verbatim>\<open>resolve(stdout)\<close> when it is.
\<close>

definition maxBuffer :: nat where
  "maxBuffer = 1024 * 1024 * 500"

definition null_stdin_error :: js_error where
  "null_stdin_error = JsError ''TypeError'' ''Cannot read properties of null (reading 'write')''"

text \<open>The body of the \<^verbatim>\<open>try\<close> block: the exception it raises, or the child it started.\<close>

definition try_block ::
  "('i, 'o) node_host \<Rightarrow> string \<Rightarrow> string list \<Rightarrow> 'i \<Rightarrow> js_error + child_process" where
  "try_block h file args input =
     (case execFile h file args maxBuffer of
        ExecThrows e \<Rightarrow> Inl e
      | ChildProcess process \<Rightarrow>
          (case stdin process of
             None \<Rightarrow> Inl null_stdin_error
           | Some s \<Rightarrow>
               (case stdin_write s (JSON_stringify h input) of
                  Some e \<Rightarrow> Inl e
                | None \<Rightarrow>
                    (case stdin_end s of
                       Some e \<Rightarrow> Inl e
                     | None \<Rightarrow> Inr process))))"

definition run_solc ::
  "('i, 'o) node_host \<Rightarrow> string \<Rightarrow> string list \<Rightarrow> 'i \<Rightarrow> js_error + string" where
  "run_solc h file args input =
     (case try_block h file args input of
        Inl e \<Rightarrow> Inl (HardhatError CANT_RUN_NATIVE_COMPILER (Some e))
      | Inr process \<Rightarrow>
          (case callback_args process (JSON_stringify h input) of
             (Some err, stdout) \<Rightarrow> Inl err
           | (None, stdout) \<Rightarrow> Inr stdout))"

definition native_compile ::
  "('i, 'o) node_host \<Rightarrow> NativeCompiler \<Rightarrow> 'i \<Rightarrow> filesystem \<Rightarrow> (js_error + 'o) \<times> filesystem" where
  "native_compile h c input f =
     (case compile_args h (solcVersion c) f of
        (Inl e, f') \<Rightarrow> (Inl e, f')
      | (Inr args, f') \<Rightarrow>
          (case run_solc h (pathToSolc c) args input of
             Inl e \<Rightarrow> (Inl e, f')
           | Inr output \<Rightarrow> (JSON_parse h output, f')))"

section \<open>The host of the in-process compiler\<close>

text \<open>
  \<^verbatim>\<open>Module._extensions\<close> is the table of module-loading hooks, keyed by file extension;
  it is \<^verbatim>\<open>undefined\<close> (\<open>None\<close>) when Hardhat is bundled.  A hook is a function object:
  one that the host or some tool installed, or the loader that
  \<^verbatim>\<open>_loadCompilerSources\<close> writes (it reads the file and compiles its text).  An entry
  that is absent and one that holds \<^verbatim>\<open>undefined\<close> are both \<open>None\<close>.

  \<^verbatim>\<open>require(path)\<close> runs the hooks that are installed when it is called, so its outcome
  depends on the table; it runs the module's code, which may change the table.  It
  returns the module's exports or throws.  The state keeps a log of the paths that
  \<^verbatim>\<open>_loadCompilerSources\<close> has required: each entry is one load of the bundle.
  \<^verbatim>\<open>require("solc/wrapper")\<close> throws or gives the wrapper function, which throws or gives
  the compiler object, whose \<^verbatim>\<open>compile\<close> throws or returns a text.
\<close>

datatype hook = HostHook nat | RawLoader

type_synonym extensions = "string \<Rightarrow> hook option"

record module_state =
  Module_extensions :: "extensions option"
  loads :: "string list"

record ('i, 'o, 'b, 's) solcjs_host = "('i, 'o) json_host" +
  require_module :: "extensions option \<Rightarrow> string \<Rightarrow> (js_error + 'b) \<times> extensions option"
  solc_wrapper :: "js_error + ('b \<Rightarrow> js_error + 's)"
  solc_compile :: "'s \<Rightarrow> string \<Rightarrow> js_error + string"

section \<open>\<^verbatim>\<open>Compiler\<close>: the in-process compiler\<close>

record 's Compiler =
  pathToSolcJs :: string
  loadedSolc :: "'s option"

definition new_Compiler :: "string \<Rightarrow> 's Compiler" where
  "new_Compiler p = \<lparr> pathToSolcJs = p, loadedSolc = None \<rparr>"

definition require_bundle ::
  "('i, 'o, 'b, 's) solcjs_host \<Rightarrow> string \<Rightarrow> module_state \<Rightarrow> (js_error + 'b) \<times> module_state" where
  "require_bundle h compilerPath w =
     (case require_module h (Module_extensions w) compilerPath of
        (r, exts) \<Rightarrow> (r, \<lparr> Module_extensions = exts, loads = loads w @ [compilerPath] \<rparr>))"

definition undefined_extensions_error :: js_error where
  "undefined_extensions_error =
     JsError ''TypeError'' ''Cannot set properties of undefined (setting '.js')''"

text \<open>
  \<^verbatim>\<open>_loadCompilerSources\<close>.  The statement that writes the previous hook back follows
  the \<^verbatim>\<open>require\<close> call; there is no \<^verbatim>\<open>try\<close> around the call, so an exception of
  \<^verbatim>\<open>require\<close> leaves the function before that statement.
\<close>

definition loadCompilerSources ::
  "('i, 'o, 'b, 's) solcjs_host \<Rightarrow> string \<Rightarrow> module_state \<Rightarrow> (js_error + 'b) \<times> module_state" where
  "loadCompilerSources h compilerPath w =
     (case Module_extensions w of
        None \<Rightarrow> require_bundle h compilerPath w
      | Some exts \<Rightarrow>
          let previousHook = exts ''.js'' in
          (case require_bundle h compilerPath
                  (w\<lparr>Module_extensions := Some (exts(''.js'' := Some RawLoader))\<rparr>) of
             (Inl e, w') \<Rightarrow> (Inl e, w')
           | (Inr loaded, w') \<Rightarrow>
               (case Module_extensions w' of
                  None \<Rightarrow> (Inl undefined_extensions_error, w')
                | Some exts' \<Rightarrow>
                    (Inr loaded,
                     w'\<lparr>Module_extensions := Some (exts'(''.js'' := previousHook))\<rparr>))))"

definition getSolc ::
  "('i, 'o, 'b, 's) solcjs_host \<Rightarrow> 's Compiler \<Rightarrow> module_state
     \<Rightarrow> (js_error + 's) \<times> 's Compiler \<times> module_state" where
  "getSolc h c w =
     (case loadedSolc c of
        Some s \<Rightarrow> (Inr s, c, w)
      | None \<Rightarrow>
          (case solc_wrapper h of
             Inl e \<Rightarrow> (Inl e, c, w)
           | Inr solcWrapper \<Rightarrow>
               (case loadCompilerSources h (pathToSolcJs c) w of
                  (Inl e, w') \<Rightarrow> (Inl e, c, w')
                | (Inr b, w') \<Rightarrow>
                    (case solcWrapper b of
                       Inl e \<Rightarrow> (Inl e, c, w')
                     | Inr s \<Rightarrow> (Inr s, c\<lparr>loadedSolc := Some s\<rparr>, w')))))"

definition compile ::
  "('i, 'o, 'b, 's) solcjs_host \<Rightarrow> 's Compiler \<Rightarrow> 'i \<Rightarrow> module_state
     \<Rightarrow> (js_error + 'o) \<times> 's Compiler \<times> module_state" where
  "compile h c input w =
     (case getSolc h c w of
        (Inl e, c', w') \<Rightarrow> (Inl e, c', w')
      | (Inr solc, c', w') \<Rightarrow>
          (case solc_compile h solc (JSON_stringify h input) of
             Inl e \<Rightarrow> (Inl e, c', w')
           | Inr jsonOutput \<Rightarrow> (JSON_parse h jsonOutput, c', w')))"

text \<open>A caller's sequence of calls on one instance, with the result of each call.\<close>

datatype 'i call = GetSolc | Compile 'i

datatype ('o, 's) outcome = Threw js_error | Handle 's | Output 'o

fun outcome_of_getSolc :: "js_error + 's \<Rightarrow> ('o, 's) outcome" where
  "outcome_of_getSolc (Inl e) = Threw e"
| "outcome_of_getSolc (Inr s) = Handle s"

fun outcome_of_compile :: "js_error + 'o \<Rightarrow> ('o, 's) outcome" where
  "outcome_of_compile (Inl e) = Threw e"
| "outcome_of_compile (Inr out) = Output out"

fun run_calls ::
  "('i, 'o, 'b, 's) solcjs_host \<Rightarrow> 'i call list \<Rightarrow> 's Compiler \<Rightarrow> module_state
     \<Rightarrow> ('o, 's) outcome list \<times> 's Compiler \<times> module_state" where
  "run_calls h [] c w = ([], c, w)"
| "run_calls h (GetSolc # cs) c w =
     (case getSolc h c w of
        (r, c', w') \<Rightarrow>
          (case run_calls h cs c' w' of
             (rs, c'', w'') \<Rightarrow> (outcome_of_getSolc r # rs, c'', w'')))"
| "run_calls h (Compile input # cs) c w =
     (case compile h c input w of
        (r, c', w') \<Rightarrow>
          (case run_calls h cs c' w' of
             (rs, c'', w'') \<Rightarrow> (outcome_of_compile r # rs, c'', w'')))"

text \<open>
  The round trip in the specification's words: serialize the input, invoke the loaded
  compiler on the text, parse the text it returns; an exception of the invocation or of
  the parse is the result.
\<close>

definition serialize_invoke_parse ::
  "('i, 'o, 'b, 's) solcjs_host \<Rightarrow> 's \<Rightarrow> 'i \<Rightarrow> js_error + 'o" where
  "serialize_invoke_parse h solc input =
     (case solc_compile h solc (JSON_stringify h input) of
        Inl e \<Rightarrow> Inl e
      | Inr text \<Rightarrow> JSON_parse h text)"

section \<open>The chain resolver of the verification plugin\<close>

text \<open>
  \<^verbatim>\<open>Etherscan.getCurrentChainConfig\<close> is called by \<^verbatim>\<open>test/unit/etherscan.ts\<close>, which
  gives the shape of its arguments, of its result and of its two messages.  A network
  has a name and a provider that answers \<^verbatim>\<open>eth_chainId\<close>; the number in the answer is the
  observed chain id.  The table of built-in chains is a parameter.
\<close>

record ChainConfig =
  network :: string
  chainId :: nat
  apiURL :: string
  browserURL :: string

record Network =
  network_name :: string
  observed_chainId :: nat

datatype chain_error = HardhatNetworkNotSupportedError | ChainConfigNotFoundError nat

definition HARDHAT_NETWORK_NAME :: string where
  "HARDHAT_NETWORK_NAME = ''hardhat''"

definition digit_char :: "nat \<Rightarrow> char" where
  "digit_char d = ''0123456789'' ! d"

function decimal :: "nat \<Rightarrow> string" where
  "decimal n = (if n < 10 then [digit_char n] else decimal (n div 10) @ [digit_char (n mod 10)])"
  by pat_completeness auto
termination
  by (relation "measure id") auto

declare decimal.simps [simp del]

fun message :: "chain_error \<Rightarrow> string" where
  "message HardhatNetworkNotSupportedError =
     ''The selected network is hardhat. Please select a network supported by Etherscan.''"
| "message (ChainConfigNotFoundError n) =
     ''Trying to verify a contract in a network with chain id '' @ decimal n
       @ '', but the plugin doesn't recognize it as a supported chain.''"

definition names_hardhat :: "ChainConfig list \<Rightarrow> bool" where
  "names_hardhat customChains = list_ex (\<lambda>c. network c = HARDHAT_NETWORK_NAME) customChains"

definition matching :: "nat \<Rightarrow> ChainConfig list \<Rightarrow> ChainConfig option" where
  "matching n entries = find (\<lambda>c. chainId c = n) entries"

text \<open>
  Modelled from the spec: the body of \<^verbatim>\<open>Etherscan.getCurrentChainConfig\<close>
  (\<^verbatim>\<open>src/internal/etherscan.ts\<close> of the plugin) is missing.  The policy, clause by clause:
  the resolution fails when the network name is the reserved local-development network
  and no custom entry names it; entries match by the observed chain id, the last matching
  custom entry before every built-in entry; the resolution fails, with the observed id,
  when no entry matches.
\<close>

definition getCurrentChainConfig ::
  "ChainConfig list \<Rightarrow> Network \<Rightarrow> ChainConfig list \<Rightarrow> chain_error + ChainConfig" where
  "getCurrentChainConfig builtinChains net customChains =
     (if network_name net = HARDHAT_NETWORK_NAME \<and> \<not> names_hardhat customChains
      then Inl HardhatNetworkNotSupportedError
      else
        (case matching (observed_chainId net) (rev customChains @ builtinChains) of
           None \<Rightarrow> Inl (ChainConfigNotFoundError (observed_chainId net))
         | Some c \<Rightarrow> Inr c))"

text \<open>The chains of the test file.\<close>

definition goerli :: ChainConfig where
  "goerli = \<lparr> network = ''goerli'', chainId = 5,
              apiURL = ''https://api-goerli.etherscan.io/api'',
              browserURL = ''https://goerli.etherscan.io'' \<rparr>"

definition custom_chain :: "string \<Rightarrow> nat \<Rightarrow> ChainConfig" where
  "custom_chain n i = \<lparr> network = n, chainId = i, apiURL = ''<api-url>'',
                         browserURL = ''<browser-url>'' \<rparr>"

definition customChains :: "ChainConfig list" where
  "customChains =
     [custom_chain ''customChain1'' 5000, custom_chain ''customChain2'' 5000,
      custom_chain ''customChain3'' 4999]"

section \<open>Concrete hosts\<close>

text \<open>
  Small hosts on which the definitions can be run: inputs and outputs are texts,
  \<^verbatim>\<open>JSON.stringify\<close> and \<^verbatim>\<open>JSON.parse\<close> are the identity, the temporary directory is
  \<^verbatim>\<open>/tmp\<close>, and every \<^verbatim>\<open>execFile\<close> call has the given outcome.
\<close>

definition solc_host :: "exec_result \<Rightarrow> (string, string) node_host" where
  "solc_host r =
     \<lparr> JSON_stringify = (\<lambda>i. i), JSON_parse = Inr, tmpdir = ''/tmp'',
       execFile = (\<lambda>file args buffer. r) \<rparr>"

definition tmp_fs :: filesystem where
  "tmp_fs = \<lparr> nodes = [''/tmp'' \<mapsto> Dir], writable = (\<lambda>p. True) \<rparr>"

definition open_stdin :: stdin_stream where
  "open_stdin = \<lparr> stdin_write = (\<lambda>text. None), stdin_end = None \<rparr>"

definition exit_error :: js_error where
  "exit_error = JsError ''Error'' ''Command failed: solc --standard-json''"

definition failing_child :: child_process where
  "failing_child = \<lparr> stdin = Some open_stdin, callback_args = (\<lambda>text. (Some exit_error, [])) \<rparr>"

definition enoent :: js_error where
  "enoent = JsError ''Error'' ''spawn solc ENOENT''"

text \<open>
  A host as Node behaves where no \<^verbatim>\<open>solc\<close> is installed.  \<^verbatim>\<open>execFile\<close> validates its
  arguments before it spawns and throws \<^verbatim>\<open>ERR_INVALID_ARG_VALUE\<close> for an empty file
  name.  For any other name the spawn fails with \<^verbatim>\<open>ENOENT\<close>, which Node does not throw:
  \<^verbatim>\<open>execFile\<close> returns a child whose input stream is open, and the callback is called
  with the error.
\<close>

definition invalid_file_argument :: js_error where
  "invalid_file_argument =
     JsError ''TypeError'' ''ERR_INVALID_ARG_VALUE: The argument 'file' cannot be empty''"

definition missing_executable :: child_process where
  "missing_executable =
     \<lparr> stdin = Some open_stdin, callback_args = (\<lambda>text. (Some enoent, [])) \<rparr>"

definition bare_host :: "(string, string) node_host" where
  "bare_host =
     \<lparr> JSON_stringify = (\<lambda>i. i), JSON_parse = Inr, tmpdir = ''/tmp'',
       execFile = (\<lambda>file args buffer.
                     if file = [] then ExecThrows invalid_file_argument
                     else ChildProcess missing_executable) \<rparr>"

text \<open>
  An in-process host whose \<^verbatim>\<open>require\<close> has the given outcome and leaves the table of
  hooks alone; the bundle and the compiler object are numbers, the wrapper is the
  identity and the compiler echoes its input.
\<close>

definition bundle_host :: "js_error + nat \<Rightarrow> (string, string, nat, nat) solcjs_host" where
  "bundle_host r =
     \<lparr> JSON_stringify = (\<lambda>i. i), JSON_parse = Inr,
       require_module = (\<lambda>exts path. (r, exts)),
       solc_wrapper = Inr Inr,
       solc_compile = (\<lambda>s text. Inr text) \<rparr>"

definition babel_hooks :: module_state where
  "babel_hooks = \<lparr> Module_extensions = Some [''.js'' \<mapsto> HostHook 0], loads = [] \<rparr>"

definition bundled :: module_state where
  "bundled = \<lparr> Module_extensions = None, loads = [] \<rparr>"

definition module_not_found :: js_error where
  "module_not_found = JsError ''Error'' ''Cannot find module''"

section \<open>Evaluation and auxiliary lemmas\<close>

lemmas semver_defs = new_SemVer_def MAX_LENGTH_def js_length_def continuation_byte_def
  four_byte_lead_def trim_def whitespace_encodings_def strip_leading.simps parse_trimmed_def
  numeric_identifier_def non_numeric_identifier_def prerelease_identifier_def build_identifier_def
  is_letter_or_hyphen_def to_pre_id_def invalid_version_def
  all_digits_def is_digit_def nat_of_digits_def digit_val_def make_SemVer_def MAX_SAFE_INTEGER_def
  gte_def compare_def compareMain_def comparePre_def compare_nat_def


lemma gte_0_7_0: "gte ''0.7.0'' ''0.8.22'' = Inr False" "gte ''0.7.0'' ''0.6.9'' = Inr True"
  by (simp_all add: semver_defs)


lemma split_on_nonempty: "split_on sep s \<noteq> []"
  by (induction s) (auto split: list.splits)

lemma split_on_append: "split_on sep (a @ sep # b) = split_on sep a @ split_on sep b"
proof (induction a)
  case Nil
  show ?case by simp
next
  case (Cons c cs)
  obtain w ws where w: "split_on sep cs = w # ws"
    using split_on_nonempty [of sep cs] by (cases "split_on sep cs") auto
  show ?case using Cons w by simp
qed

lemma join_with_snoc:
  "h \<noteq> [] \<Longrightarrow> join_with sep (res @ [h]) \<noteq> [] \<and> last (join_with sep (res @ [h])) = last h"
  by (induction sep res rule: join_with.induct) auto

lemma normalize_step_plain:
  "seg \<noteq> [] \<Longrightarrow> seg \<noteq> ''.'' \<Longrightarrow> seg \<noteq> ''..'' \<Longrightarrow> normalize_step a res seg = res @ [seg]"
  by (simp add: normalize_step_def)

lemma normalizeString_last:
  assumes "split_on (CHR ''/'') path = xs @ [seg]" "seg \<noteq> []" "seg \<noteq> ''.''" "seg \<noteq> ''..''"
  shows "normalizeString path a \<noteq> [] \<and> last (normalizeString path a) = last seg"
  using assms by (simp add: normalizeString_def normalize_step_plain join_with_snoc)

lemma normalize_last:
  assumes "split_on (CHR ''/'') path = xs @ [seg]" "seg \<noteq> []" "seg \<noteq> ''.''" "seg \<noteq> ''..''"
    and "path \<noteq> []" "last path \<noteq> CHR ''/''"
  shows "normalize path \<noteq> [] \<and> last (normalize path) = last seg"
  using normalizeString_last [OF assms(1-4)] assms(5,6)
  by (simp add: normalize_def Let_def)

lemma tmpFolder_last: "tmpFolder h \<noteq> [] \<and> last (tmpFolder h) = CHR ''c''"
proof (cases "tmpdir h = []")
  case True
  have "split_on (CHR ''/'') ''hardhat-solc'' = [] @ [''hardhat-solc'']" by simp
  from normalize_last [OF this] show ?thesis
    using True by (simp add: tmpFolder_def path_join_def)
next
  case False
  have "split_on (CHR ''/'') (tmpdir h @ CHR ''/'' # ''hardhat-solc'')
          = split_on (CHR ''/'') (tmpdir h) @ [''hardhat-solc'']"
    by (simp add: split_on_append)
  from normalize_last [OF this] show ?thesis
    using False by (simp add: tmpFolder_def path_join_def)
qed

lemma tmpFolder_not_flag: "tmpFolder h \<noteq> ''--no-import-callback''"
proof
  assume "tmpFolder h = ''--no-import-callback''"
  then have "last (tmpFolder h) = CHR ''k''" by simp
  then show False using tmpFolder_last [of h] by simp
qed






section \<open>The argument list of the native compiler\<close>

lemma tmpFolder_solc_host: "tmpFolder (solc_host r) = ''/tmp/hardhat-solc''"
  by (simp add: tmpFolder_def solc_host_def path_join_def normalize_def normalizeString_def
      normalize_step_def)

lemma mkdir_tmp_fs:
  "mkdirSync_recursive tmp_fs ''/tmp/hardhat-solc''
     = (None, tmp_fs\<lparr>nodes := (nodes tmp_fs)(''/tmp/hardhat-solc'' \<mapsto> Dir)\<rparr>)"
  by (simp add: mkdirSync_recursive_def ancestors_def tmp_fs_def)



text \<open>
  Claim C10.  Whatever the version, an argument list that \<^verbatim>\<open>compile\<close> builds starts with
  \<^verbatim>\<open>--standard-json\<close> and never holds both \<^verbatim>\<open>--no-import-callback\<close> and \<^verbatim>\<open>--base-path\<close>.
  (A version that is not a semantic version makes \<^verbatim>\<open>semver.gte\<close> throw: no list is built.)
\<close>

theorem compile_args_flags_exclusive:
  "compile_args h version f = (Inr args, f') \<Longrightarrow>
     args \<noteq> [] \<and> hd args = ''--standard-json''
     \<and> \<not> (''--no-import-callback'' \<in> set args \<and> ''--base-path'' \<in> set args)"
  using tmpFolder_not_flag [of h]
  by (auto simp: compile_args_def split: option.splits sum.splits bool.splits prod.splits)

theorem compile_args_flags_exclusive_witness:
  "compile_args (solc_host (ExecThrows enoent)) (Some ''0.7.0'') tmp_fs
     = (Inr [''--standard-json'', ''--base-path'', ''/tmp/hardhat-solc''],
        tmp_fs\<lparr>nodes := (nodes tmp_fs)(''/tmp/hardhat-solc'' \<mapsto> Dir)\<rparr>)
   \<and> hd [''--standard-json'', ''--base-path'', ''/tmp/hardhat-solc''] = ''--standard-json''
   \<and> \<not> (''--no-import-callback'' \<in> set [''--standard-json'', ''--base-path'', ''/tmp/hardhat-solc'']
        \<and> ''--base-path'' \<in> set [''--standard-json'', ''--base-path'', ''/tmp/hardhat-solc''])"
proof -
  have eq: "compile_args (solc_host (ExecThrows enoent)) (Some ''0.7.0'') tmp_fs
     = (Inr [''--standard-json'', ''--base-path'', ''/tmp/hardhat-solc''],
        tmp_fs\<lparr>nodes := (nodes tmp_fs)(''/tmp/hardhat-solc'' \<mapsto> Dir)\<rparr>)"
    by (simp add: compile_args_def gte_0_7_0 tmpFolder_solc_host mkdir_tmp_fs)
  from compile_args_flags_exclusive [OF eq] eq show ?thesis by simp
qed

section \<open>Failures of the native compiler\<close>

lemma native_compile_spawns:
  "compile_args h (solcVersion c) f = (Inr args, f') \<Longrightarrow>
     native_compile h c input f =
       (case run_solc h (pathToSolc c) args input of
          Inl e \<Rightarrow> (Inl e, f')
        | Inr output \<Rightarrow> (JSON_parse h output, f'))"
  by (simp add: native_compile_def)

lemma try_block_failing_child:
  "try_block (solc_host (ChildProcess failing_child)) file args input = Inr failing_child"
  by (simp add: try_block_def solc_host_def failing_child_def open_stdin_def)

lemma callback_failing_child: "callback_args failing_child text = (Some exit_error, [])"
  by (simp add: failing_child_def)

lemma compile_args_no_version: "compile_args h None f = (Inr [''--standard-json''], f)"
  by (simp add: compile_args_def)

text \<open>
  Claim C5 as stated: a failing exit makes \<^verbatim>\<open>compile\<close> fail with a \<open>HardhatError\<close> that
  carries the process error.  The callback calls \<^verbatim>\<open>reject(err)\<close>: on a child whose exit
  reports \<open>exit_error\<close> the result is \<open>exit_error\<close> itself, which has no descriptor and
  no parent.
\<close>

theorem native_compile_exit_error_counterexample:
  "fst (native_compile (solc_host (ChildProcess failing_child))
          \<lparr> pathToSolc = ''solc'', solcVersion = None \<rparr> ''{}'' tmp_fs) = Inl exit_error
   \<and> descriptor exit_error = None \<and> parent exit_error = None
   \<and> Inl exit_error \<noteq>
       (Inl (HardhatError CANT_RUN_NATIVE_COMPILER (Some exit_error)) :: js_error + string)"
  by (simp add: native_compile_def compile_args_no_version run_solc_def try_block_failing_child
      callback_failing_child exit_error_def)

text \<open>
  Claim C5, amended.  When the spawn was set up without an exception and the callback
  receives an error, \<^verbatim>\<open>compile\<close> fails with that error itself, unwrapped.
\<close>

theorem native_compile_exit_error:
  assumes "compile_args h (solcVersion c) f = (Inr args, f')"
    and "try_block h (pathToSolc c) args input = Inr process"
    and "callback_args process (JSON_stringify h input) = (Some err, stdout)"
  shows "native_compile h c input f = (Inl err, f')"
  using assms by (simp add: native_compile_def run_solc_def)

theorem native_compile_exit_error_witness:
  "compile_args (solc_host (ChildProcess failing_child)) None tmp_fs
     = (Inr [''--standard-json''], tmp_fs)
   \<and> try_block (solc_host (ChildProcess failing_child)) ''solc'' [''--standard-json''] ''{}''
       = Inr failing_child
   \<and> callback_args failing_child ''{}'' = (Some exit_error, [])
   \<and> native_compile (solc_host (ChildProcess failing_child))
        \<lparr> pathToSolc = ''solc'', solcVersion = None \<rparr> ''{}'' tmp_fs = (Inl exit_error, tmp_fs)"
proof -
  let ?h = "solc_host (ChildProcess failing_child)"
  let ?c = "\<lparr> pathToSolc = ''solc'', solcVersion = None \<rparr>"
  have a: "compile_args ?h (solcVersion ?c) tmp_fs = (Inr [''--standard-json''], tmp_fs)"
    by (simp add: compile_args_no_version)
  have b: "try_block ?h (pathToSolc ?c) [''--standard-json''] ''{}'' = Inr failing_child"
    by (simp add: try_block_failing_child)
  have c: "callback_args failing_child (JSON_stringify ?h ''{}'') = (Some exit_error, [])"
    by (simp add: callback_failing_child)
  from native_compile_exit_error [OF a b c] a b show ?thesis
    by (simp add: callback_failing_child)
qed

text \<open>
  Claim C6 as stated: a failure to find or to start the executable makes \<^verbatim>\<open>compile\<close>
  fail with an error of the kind \<^verbatim>\<open>CANT_RUN_NATIVE_COMPILER\<close>.  Where no \<^verbatim>\<open>solc\<close> is
  installed nothing is thrown inside the \<^verbatim>\<open>try\<close> block: the callback receives the
  \<^verbatim>\<open>ENOENT\<close> error and \<^verbatim>\<open>compile\<close> fails with that error itself, which has no descriptor
  and no parent.
\<close>

theorem native_compile_cant_run_counterexample:
  "fst (native_compile bare_host \<lparr> pathToSolc = ''solc'', solcVersion = None \<rparr> ''{}'' tmp_fs)
     = Inl enoent
   \<and> descriptor enoent = None \<and> parent enoent = None
   \<and> Inl enoent \<noteq>
       (Inl (HardhatError CANT_RUN_NATIVE_COMPILER (Some enoent)) :: js_error + string)"
proof -
  have t: "try_block bare_host ''solc'' [''--standard-json''] ''{}'' = Inr missing_executable"
    by (simp add: try_block_def bare_host_def missing_executable_def open_stdin_def)
  have c: "callback_args missing_executable written = (Some enoent, [])" for written
    by (simp add: missing_executable_def)
  show ?thesis
    by (simp add: native_compile_def compile_args_no_version run_solc_def t c enoent_def)
qed

text \<open>The exceptions of the \<^verbatim>\<open>try\<close> block, in the order of its statements.\<close>

lemma try_block_exceptions:
  "try_block h file args input = Inl e \<longleftrightarrow>
     execFile h file args maxBuffer = ExecThrows e
     \<or> (\<exists>process. execFile h file args maxBuffer = ChildProcess process
           \<and> (stdin process = None \<and> e = null_stdin_error
               \<or> (\<exists>s. stdin process = Some s
                     \<and> (stdin_write s (JSON_stringify h input) = Some e
                         \<or> stdin_write s (JSON_stringify h input) = None
                            \<and> stdin_end s = Some e))))"
  by (auto simp: try_block_def split: exec_result.splits option.splits)

text \<open>
  Claim C6, amended.  An exception thrown inside the \<^verbatim>\<open>try\<close> block (by \<^verbatim>\<open>execFile\<close>, or
  by writing to or ending the input stream of the child) makes \<^verbatim>\<open>compile\<close> fail with an
  error of the kind \<^verbatim>\<open>CANT_RUN_NATIVE_COMPILER\<close> whose parent is the exception.  An
  exception before the \<^verbatim>\<open>try\<close> block (of \<^verbatim>\<open>semver.gte\<close>, of \<^verbatim>\<open>mkdirSync\<close>) and an error
  that the callback receives are the failure of \<^verbatim>\<open>compile\<close> as they are.
\<close>

theorem native_compile_cant_run:
  "(\<forall>e f'. compile_args h (solcVersion c) f = (Inl e, f')
       \<longrightarrow> native_compile h c input f = (Inl e, f'))
   \<and> (\<forall>args f' e. compile_args h (solcVersion c) f = (Inr args, f')
         \<and> try_block h (pathToSolc c) args input = Inl e
       \<longrightarrow> native_compile h c input f
             = (Inl (HardhatError CANT_RUN_NATIVE_COMPILER (Some e)), f')
           \<and> descriptor (HardhatError CANT_RUN_NATIVE_COMPILER (Some e))
               = Some CANT_RUN_NATIVE_COMPILER
           \<and> parent (HardhatError CANT_RUN_NATIVE_COMPILER (Some e)) = Some e)
   \<and> (\<forall>args f' process err stdout. compile_args h (solcVersion c) f = (Inr args, f')
         \<and> try_block h (pathToSolc c) args input = Inr process
         \<and> callback_args process (JSON_stringify h input) = (Some err, stdout)
       \<longrightarrow> native_compile h c input f = (Inl err, f'))"
  by (simp add: native_compile_def run_solc_def)

text \<open>
  On the host without \<^verbatim>\<open>solc\<close>: a version that is no semantic version, an empty file
  name, and the name \<^verbatim>\<open>solc\<close>.
\<close>

theorem native_compile_cant_run_witness:
  "compile_args bare_host (Some ''latest'') tmp_fs = (Inl (invalid_version ''latest''), tmp_fs)
   \<and> native_compile bare_host \<lparr> pathToSolc = ''solc'', solcVersion = Some ''latest'' \<rparr> ''{}''
        tmp_fs = (Inl (invalid_version ''latest''), tmp_fs)
   \<and> compile_args bare_host None tmp_fs = (Inr [''--standard-json''], tmp_fs)
   \<and> try_block bare_host [] [''--standard-json''] ''{}'' = Inl invalid_file_argument
   \<and> native_compile bare_host \<lparr> pathToSolc = [], solcVersion = None \<rparr> ''{}'' tmp_fs
       = (Inl (HardhatError CANT_RUN_NATIVE_COMPILER (Some invalid_file_argument)), tmp_fs)
   \<and> parent (HardhatError CANT_RUN_NATIVE_COMPILER (Some invalid_file_argument))
       = Some invalid_file_argument
   \<and> try_block bare_host ''solc'' [''--standard-json''] ''{}'' = Inr missing_executable
   \<and> callback_args missing_executable ''{}'' = (Some enoent, [])
   \<and> native_compile bare_host \<lparr> pathToSolc = ''solc'', solcVersion = None \<rparr> ''{}'' tmp_fs
       = (Inl enoent, tmp_fs)"
proof -
  let ?bad = "\<lparr> pathToSolc = ''solc'', solcVersion = Some ''latest'' \<rparr>"
  let ?empty = "\<lparr> pathToSolc = [], solcVersion = None \<rparr>"
  let ?solc = "\<lparr> pathToSolc = ''solc'', solcVersion = None \<rparr>"
  have g: "gte ''latest'' ''0.8.22'' = Inl (invalid_version ''latest'')"
    by (simp add: semver_defs)
  have a: "compile_args bare_host (solcVersion ?bad) tmp_fs
             = (Inl (invalid_version ''latest''), tmp_fs)"
    by (simp add: compile_args_def g)
  have b: "compile_args bare_host (solcVersion ?empty) tmp_fs = (Inr [''--standard-json''], tmp_fs)"
    by (simp add: compile_args_no_version)
  have t1: "try_block bare_host (pathToSolc ?empty) [''--standard-json''] ''{}''
              = Inl invalid_file_argument"
    by (simp add: try_block_def bare_host_def)
  have b': "compile_args bare_host (solcVersion ?solc) tmp_fs = (Inr [''--standard-json''], tmp_fs)"
    by (simp add: compile_args_no_version)
  have t2: "try_block bare_host (pathToSolc ?solc) [''--standard-json''] ''{}''
              = Inr missing_executable"
    by (simp add: try_block_def bare_host_def missing_executable_def open_stdin_def)
  have cb: "callback_args missing_executable (JSON_stringify bare_host ''{}'') = (Some enoent, [])"
    by (simp add: missing_executable_def)
  have cb': "callback_args missing_executable ''{}'' = (Some enoent, [])"
    by (simp add: missing_executable_def)
  have r1: "native_compile bare_host ?bad ''{}'' tmp_fs = (Inl (invalid_version ''latest''), tmp_fs)"
    using native_compile_cant_run [of bare_host ?bad tmp_fs "''{}''"] a by blast
  have r2: "native_compile bare_host ?empty ''{}'' tmp_fs
              = (Inl (HardhatError CANT_RUN_NATIVE_COMPILER (Some invalid_file_argument)), tmp_fs)"
    using native_compile_cant_run [of bare_host ?empty tmp_fs "''{}''"] b t1 by blast
  have r3: "native_compile bare_host ?solc ''{}'' tmp_fs = (Inl enoent, tmp_fs)"
    using native_compile_cant_run [of bare_host ?solc tmp_fs "''{}''"] b' t2 cb by blast
  from a b t1 t2 cb' r1 r2 r3 show ?thesis by simp
qed

section \<open>One load per instance\<close>

lemma require_bundle_loads:
  "require_bundle h p w = (r, w') \<Longrightarrow> loads w' = loads w @ [p]"
  by (auto simp: require_bundle_def split: prod.splits)

lemma loadCompilerSources_loads:
  "loadCompilerSources h p w = (r, w') \<Longrightarrow> loads w' = loads w @ [p]"
  by (auto simp: loadCompilerSources_def Let_def
      split: option.splits prod.splits sum.splits dest!: require_bundle_loads)

lemma getSolc_cached: "loadedSolc c = Some s \<Longrightarrow> getSolc h c w = (Inr s, c, w)"
  by (simp add: getSolc_def)

lemma compile_cached:
  "loadedSolc c = Some s \<Longrightarrow> compile h c input w = (serialize_invoke_parse h s input, c, w)"
  by (simp add: compile_def getSolc_cached serialize_invoke_parse_def split: sum.splits)

lemma getSolc_first:
  assumes "getSolc h c w = (Inr s, c', w')" and "loadedSolc c = None"
  shows "loadedSolc c' = Some s \<and> pathToSolcJs c' = pathToSolcJs c
         \<and> loads w' = loads w @ [pathToSolcJs c]"
  using assms
  by (auto simp: getSolc_def split: sum.splits prod.splits dest: loadCompilerSources_loads)

lemma compile_getSolc:
  "getSolc h c w = (Inr s, c', w') \<Longrightarrow>
     compile h c input w = (serialize_invoke_parse h s input, c', w')"
  by (simp add: compile_def serialize_invoke_parse_def split: sum.splits)

lemma run_calls_cached:
  "loadedSolc c = Some s \<Longrightarrow> run_calls h cs c w = (rs, c', w') \<Longrightarrow>
     c' = c \<and> w' = w \<and> length rs = length cs
     \<and> (\<forall>i < length cs. cs ! i = GetSolc \<longrightarrow> rs ! i = Handle s)"
proof (induction cs arbitrary: rs c' w')
  case Nil
  then show ?case by simp
next
  case (Cons a cs)
  obtain rs0 c0 w0 where r0: "run_calls h cs c w = (rs0, c0, w0)"
    by (cases "run_calls h cs c w") auto
  from Cons.IH [OF Cons.prems(1) r0]
  have ih: "c0 = c" "w0 = w" "length rs0 = length cs"
    "\<forall>i < length cs. cs ! i = GetSolc \<longrightarrow> rs0 ! i = Handle s" by auto
  show ?case
  proof (cases a)
    case GetSolc
    with Cons.prems r0 have "rs = Handle s # rs0" "c' = c0" "w' = w0"
      by (auto simp: getSolc_cached)
    with ih GetSolc show ?thesis by (auto simp: nth_Cons split: nat.splits)
  next
    case (Compile input)
    with Cons.prems r0
    have "rs = outcome_of_compile (serialize_invoke_parse h s input) # rs0" "c' = c0" "w' = w0"
      by (auto simp: compile_cached)
    with ih Compile show ?thesis by (auto simp: nth_Cons split: nat.splits)
  qed
qed

text \<open>
  Claim C3, amended.  On a new instance whose first load succeeds with the handle \<open>s\<close>, any
  sequence of one or more calls of \<^verbatim>\<open>getSolc\<close> and \<^verbatim>\<open>compile\<close> performs exactly one load of
  the bundle, every \<^verbatim>\<open>getSolc\<close> call of the sequence returns \<open>s\<close>, and \<open>s\<close> is the cached
  handle afterwards.
\<close>

theorem getSolc_loads_once:
  fixes h :: "('i, 'o, 'b, 's) solcjs_host"
  assumes first: "getSolc h (new_Compiler p) w = (Inr s, c1, w1)"
    and calls: "run_calls h (a # cs) (new_Compiler p) w = (rs, c', w')"
  shows "loads w' = loads w @ [p] \<and> loadedSolc c' = Some s \<and> length rs = length (a # cs)
         \<and> (\<forall>i < length (a # cs). (a # cs) ! i = GetSolc \<longrightarrow> rs ! i = Handle s)"
proof -
  have fresh: "loadedSolc (new_Compiler p :: 's Compiler) = None"
    "pathToSolcJs (new_Compiler p :: 's Compiler) = p"
    by (simp_all add: new_Compiler_def)
  from getSolc_first [OF first fresh(1)] fresh(2)
  have c1: "loadedSolc c1 = Some s" and w1: "loads w1 = loads w @ [p]" by simp_all
  obtain rs0 c0 w0 where r0: "run_calls h cs c1 w1 = (rs0, c0, w0)"
    by (cases "run_calls h cs c1 w1") auto
  from run_calls_cached [OF c1 r0]
  have rest: "c0 = c1" "w0 = w1" "length rs0 = length cs"
    "\<forall>i < length cs. cs ! i = GetSolc \<longrightarrow> rs0 ! i = Handle s" by auto
  show ?thesis
  proof (cases a)
    case GetSolc
    with calls first r0 have "rs = Handle s # rs0" "c' = c0" "w' = w0" by auto
    with rest c1 w1 GetSolc show ?thesis by (auto simp: nth_Cons split: nat.splits)
  next
    case (Compile input)
    with calls compile_getSolc [OF first, of input] r0
    have "rs = outcome_of_compile (serialize_invoke_parse h s input) # rs0" "c' = c0" "w' = w0"
      by auto
    with rest c1 w1 Compile show ?thesis by (auto simp: nth_Cons split: nat.splits)
  qed
qed

text \<open>Four calls on a host whose bundle loads: one entry in the log of loads.\<close>

lemma require_bundle_host:
  "require_bundle (bundle_host r) p w = (r, \<lparr> Module_extensions = Module_extensions w, loads = loads w @ [p] \<rparr>)"
  by (simp add: require_bundle_def bundle_host_def)

lemma loadCompilerSources_babel_ok:
  "loadCompilerSources (bundle_host (Inr b)) p babel_hooks
     = (Inr b, \<lparr> Module_extensions = Some [''.js'' \<mapsto> HostHook 0], loads = [p] \<rparr>)"
  by (simp add: loadCompilerSources_def require_bundle_host babel_hooks_def)

lemma getSolc_babel_ok:
  "getSolc (bundle_host (Inr b)) (new_Compiler p) babel_hooks
     = (Inr b, \<lparr> pathToSolcJs = p, loadedSolc = Some b \<rparr>,
        \<lparr> Module_extensions = Some [''.js'' \<mapsto> HostHook 0], loads = [p] \<rparr>)"
proof -
  have w: "solc_wrapper (bundle_host (Inr b)) = Inr Inr"
    by (simp add: bundle_host_def)
  show ?thesis
    by (simp add: getSolc_def new_Compiler_def w loadCompilerSources_babel_ok)
qed

theorem getSolc_loads_once_witness:
  "getSolc (bundle_host (Inr 7)) (new_Compiler ''soljson.js'') babel_hooks
     = (Inr 7, \<lparr> pathToSolcJs = ''soljson.js'', loadedSolc = Some 7 \<rparr>,
        \<lparr> Module_extensions = Some [''.js'' \<mapsto> HostHook 0], loads = [''soljson.js''] \<rparr>)
   \<and> run_calls (bundle_host (Inr 7)) [GetSolc, GetSolc, Compile ''{}'', GetSolc]
        (new_Compiler ''soljson.js'') babel_hooks
       = ([Handle 7, Handle 7, Output ''{}'', Handle 7],
          \<lparr> pathToSolcJs = ''soljson.js'', loadedSolc = Some 7 \<rparr>,
          \<lparr> Module_extensions = Some [''.js'' \<mapsto> HostHook 0], loads = [''soljson.js''] \<rparr>)
   \<and> loads \<lparr> Module_extensions = Some [''.js'' \<mapsto> HostHook 0], loads = [''soljson.js''] \<rparr>
       = loads babel_hooks @ [''soljson.js'']"
proof -
  let ?h = "bundle_host (Inr 7)"
  let ?c = "\<lparr> pathToSolcJs = ''soljson.js'', loadedSolc = Some (7::nat) \<rparr>"
  let ?w = "\<lparr> Module_extensions = Some [''.js'' \<mapsto> HostHook 0], loads = [''soljson.js''] \<rparr>"
  have first: "getSolc ?h (new_Compiler ''soljson.js'') babel_hooks = (Inr 7, ?c, ?w)"
    by (rule getSolc_babel_ok)
  have cached: "getSolc ?h ?c ?w = (Inr 7, ?c, ?w)"
    by (simp add: getSolc_cached)
  have comp: "compile ?h ?c ''{}'' ?w = (Inr ''{}'', ?c, ?w)"
    by (simp add: compile_cached serialize_invoke_parse_def bundle_host_def)
  have calls: "run_calls ?h [GetSolc, GetSolc, Compile ''{}'', GetSolc]
        (new_Compiler ''soljson.js'') babel_hooks
       = ([Handle 7, Handle 7, Output ''{}'', Handle 7], ?c, ?w)"
    by (simp add: first cached comp)
  from getSolc_loads_once [OF first calls] first calls show ?thesis
    by simp
qed

text \<open>
  Claim C3 as stated: any number of calls on one instance performs exactly one load and
  returns the cached handle.  A load that fails caches nothing, so the next call loads
  again: two \<^verbatim>\<open>getSolc\<close> calls on a host whose \<^verbatim>\<open>require\<close> throws return no handle and
  leave two entries in the log of loads.
\<close>

theorem getSolc_loads_once_counterexample:
  "run_calls (bundle_host (Inl module_not_found)) [GetSolc, GetSolc]
     (new_Compiler ''soljson.js'') bundled
     = ([Threw module_not_found, Threw module_not_found], new_Compiler ''soljson.js'',
        \<lparr> Module_extensions = None, loads = [''soljson.js'', ''soljson.js''] \<rparr>)
   \<and> length [''soljson.js'', ''soljson.js''] = 2"
proof -
  have w: "solc_wrapper (bundle_host (Inl module_not_found)) = Inr Inr"
    by (simp add: bundle_host_def)
  have one: "getSolc (bundle_host (Inl module_not_found)) (new_Compiler ''soljson.js'')
               \<lparr> Module_extensions = None, loads = ps \<rparr>
             = (Inl module_not_found, new_Compiler ''soljson.js'',
                \<lparr> Module_extensions = None, loads = ps @ [''soljson.js''] \<rparr>)" for ps
    by (simp add: getSolc_def new_Compiler_def w loadCompilerSources_def require_bundle_host)
  show ?thesis
    by (simp add: bundled_def one)
qed

section \<open>The guarded load and the table of hooks\<close>

text \<open>When the load returns, the hook for \<^verbatim>\<open>.js\<close> is the one that was there before.\<close>

lemma loadCompilerSources_restores:
  assumes "loadCompilerSources h p w = (Inr b, w')" and "Module_extensions w = Some exts"
  shows "\<exists>exts'. Module_extensions w' = Some exts' \<and> exts' ''.js'' = exts ''.js''"
  using assms
  by (auto simp: loadCompilerSources_def Let_def split: prod.splits sum.splits option.splits)

text \<open>
  Claim C2 says that the previous hook is written back on failure of the load too.  On a
  host where a hook is installed for \<^verbatim>\<open>.js\<close> and \<^verbatim>\<open>require\<close> throws,
  \<^verbatim>\<open>_loadCompilerSources\<close> throws with the temporary loader still in the table.
\<close>

theorem loadCompilerSources_throw_keeps_loader:
  "loadCompilerSources (bundle_host (Inl module_not_found)) ''soljson.js'' babel_hooks
     = (Inl module_not_found,
        \<lparr> Module_extensions = Some [''.js'' \<mapsto> RawLoader], loads = [''soljson.js''] \<rparr>)
   \<and> Module_extensions babel_hooks = Some [''.js'' \<mapsto> HostHook 0]
   \<and> [''.js'' \<mapsto> RawLoader] ''.js'' \<noteq> [''.js'' \<mapsto> HostHook 0] ''.js''"
  by (simp add: loadCompilerSources_def require_bundle_host babel_hooks_def)

section \<open>The round trip of the in-process compiler\<close>

text \<open>
  Claim C4.  For every input, \<^verbatim>\<open>compile\<close> fails with the error of \<^verbatim>\<open>getSolc\<close> when the
  compiler cannot be obtained, and is otherwise the parse of the text that the loaded
  compiler returns for the serialized input.  An exception of the compiler's \<^verbatim>\<open>compile\<close>
  or of the parse is the result of the call, and the state is the one \<^verbatim>\<open>getSolc\<close> left:
  nothing is tried again.
\<close>

theorem compile_round_trip:
  "compile h c input w =
     (case getSolc h c w of
        (Inl e, c', w') \<Rightarrow> (Inl e, c', w')
      | (Inr solc, c', w') \<Rightarrow> (serialize_invoke_parse h solc input, c', w'))
   \<and> (\<forall>solc c' w'. getSolc h c w = (Inr solc, c', w') \<longrightarrow>
         (\<forall>e. solc_compile h solc (JSON_stringify h input) = Inl e
                \<longrightarrow> compile h c input w = (Inl e, c', w'))
         \<and> (\<forall>text. solc_compile h solc (JSON_stringify h input) = Inr text
                \<longrightarrow> compile h c input w = (JSON_parse h text, c', w')))"
  by (auto simp: compile_def serialize_invoke_parse_def split: prod.splits sum.splits)

theorem compile_round_trip_witness:
  "getSolc (bundle_host (Inr 7)) (new_Compiler ''soljson.js'') babel_hooks
     = (Inr 7, \<lparr> pathToSolcJs = ''soljson.js'', loadedSolc = Some 7 \<rparr>,
        \<lparr> Module_extensions = Some [''.js'' \<mapsto> HostHook 0], loads = [''soljson.js''] \<rparr>)
   \<and> solc_compile (bundle_host (Inr 7)) 7 (JSON_stringify (bundle_host (Inr 7)) ''{}'') = Inr ''{}''
   \<and> compile (bundle_host (Inr 7)) (new_Compiler ''soljson.js'') ''{}'' babel_hooks
       = (JSON_parse (bundle_host (Inr 7)) ''{}'',
          \<lparr> pathToSolcJs = ''soljson.js'', loadedSolc = Some 7 \<rparr>,
          \<lparr> Module_extensions = Some [''.js'' \<mapsto> HostHook 0], loads = [''soljson.js''] \<rparr>)"
proof -
  let ?h = "bundle_host (Inr 7)"
  have first: "getSolc ?h (new_Compiler ''soljson.js'') babel_hooks
     = (Inr 7, \<lparr> pathToSolcJs = ''soljson.js'', loadedSolc = Some 7 \<rparr>,
        \<lparr> Module_extensions = Some [''.js'' \<mapsto> HostHook 0], loads = [''soljson.js''] \<rparr>)"
    by (rule getSolc_babel_ok)
  have inv: "solc_compile ?h 7 (JSON_stringify ?h ''{}'') = Inr ''{}''"
    by (simp add: bundle_host_def)
  from compile_round_trip [of ?h "new_Compiler ''soljson.js''" "''{}''" babel_hooks] first inv
  show ?thesis by (simp add: serialize_invoke_parse_def)
qed

section \<open>The host without a table of hooks\<close>

text \<open>
  Claim C7.  When \<^verbatim>\<open>Module._extensions\<close> is undefined, \<^verbatim>\<open>_loadCompilerSources\<close> is one
  plain \<^verbatim>\<open>require\<close> of the path: \<^verbatim>\<open>require\<close> sees the undefined table, and the table
  afterwards is what \<^verbatim>\<open>require\<close> itself left.
\<close>

theorem loadCompilerSources_plain_require:
  "Module_extensions w = None \<Longrightarrow>
     loadCompilerSources h p w = require_bundle h p w
     \<and> loadCompilerSources h p w =
         (fst (require_module h None p),
          \<lparr> Module_extensions = snd (require_module h None p), loads = loads w @ [p] \<rparr>)"
  by (simp add: loadCompilerSources_def require_bundle_def split: prod.splits)

theorem loadCompilerSources_plain_require_witness:
  "Module_extensions bundled = None
   \<and> loadCompilerSources (bundle_host (Inr 7)) ''soljson.js'' bundled
       = (Inr 7, \<lparr> Module_extensions = None, loads = [''soljson.js''] \<rparr>)"
proof -
  have none: "Module_extensions bundled = None"
    by (simp add: bundled_def)
  from loadCompilerSources_plain_require [OF none, of "bundle_host (Inr 7)" "''soljson.js''"] none
  show ?thesis by (simp add: bundle_host_def bundled_def require_bundle_def)
qed

section \<open>Chain resolution\<close>

text \<open>The five cases of \<^verbatim>\<open>describe("getCurrentChainConfig")\<close> in the test file.\<close>

lemmas chain_defs = getCurrentChainConfig_def HARDHAT_NETWORK_NAME_def names_hardhat_def
  matching_def customChains_def custom_chain_def goerli_def

lemma etherscan_unit_tests:
  "getCurrentChainConfig [goerli] \<lparr> network_name = ''customChain2'', observed_chainId = 5000 \<rparr>
     customChains = Inr (custom_chain ''customChain2'' 5000)"
  "getCurrentChainConfig [goerli] \<lparr> network_name = ''goerli'', observed_chainId = 5 \<rparr>
     customChains = Inr goerli"
  "getCurrentChainConfig [goerli] \<lparr> network_name = ''hardhat'', observed_chainId = 31337 \<rparr>
     customChains = Inl HardhatNetworkNotSupportedError"
  "getCurrentChainConfig [goerli] \<lparr> network_name = ''hardhat'', observed_chainId = 31337 \<rparr>
     (customChains @ [custom_chain ''hardhat'' 31337]) = Inr (custom_chain ''hardhat'' 31337)"
  "getCurrentChainConfig [goerli]
     \<lparr> network_name = ''someNetwork'', observed_chainId = 21343214123 \<rparr> customChains
     = Inl (ChainConfigNotFoundError 21343214123)"
  by (simp_all add: chain_defs)

lemma find_append_cases:
  "find P (xs @ ys) = (case find P xs of None \<Rightarrow> find P ys | Some x \<Rightarrow> Some x)"
  by (induction xs) auto

lemma find_Some_member: "find P xs = Some x \<Longrightarrow> x \<in> set xs \<and> P x"
  by (induction xs) (auto split: if_splits)

lemma find_last_match:
  "P c \<Longrightarrow> \<forall>d\<in>set post. \<not> P d \<Longrightarrow> find P (rev (pre @ c # post) @ ys) = Some c"
proof -
  assume c: "P c" and post: "\<forall>d\<in>set post. \<not> P d"
  have "find P (rev post) = None" using post by (simp add: find_None_iff)
  then show ?thesis using c by (simp add: find_append_cases)
qed

lemma names_hardhat_iff:
  "names_hardhat cs \<longleftrightarrow> (\<exists>c\<in>set cs. network c = HARDHAT_NETWORK_NAME)"
  by (simp add: names_hardhat_def list_ex_iff)

text \<open>
  Claim C8.  Unless the resolution is refused for the reserved network, the last custom
  entry that matches the observed chain id is the result, whatever the built-in table
  holds; when no custom entry matches and a built-in one does, the result is a matching
  built-in entry.
\<close>

theorem getCurrentChainConfig_last_custom:
  assumes "network_name net = HARDHAT_NETWORK_NAME
             \<longrightarrow> (\<exists>c\<in>set customs. network c = HARDHAT_NETWORK_NAME)"
  shows "(\<forall>pre c post. customs = pre @ c # post \<and> chainId c = observed_chainId net
            \<and> (\<forall>d\<in>set post. chainId d \<noteq> observed_chainId net)
            \<longrightarrow> getCurrentChainConfig builtin net customs = Inr c)
       \<and> ((\<forall>c\<in>set customs. chainId c \<noteq> observed_chainId net)
            \<and> (\<exists>b\<in>set builtin. chainId b = observed_chainId net)
            \<longrightarrow> (\<exists>b\<in>set builtin. chainId b = observed_chainId net
                   \<and> getCurrentChainConfig builtin net customs = Inr b))"
proof -
  let ?n = "observed_chainId net"
  let ?P = "\<lambda>c. chainId c = ?n"
  have go: "getCurrentChainConfig builtin net customs =
      (case find ?P (rev customs @ builtin) of
         None \<Rightarrow> Inl (ChainConfigNotFoundError ?n) | Some c \<Rightarrow> Inr c)"
    using assms by (auto simp: getCurrentChainConfig_def names_hardhat_iff matching_def)
  have first: "getCurrentChainConfig builtin net customs = Inr c"
    if "customs = pre @ c # post" "chainId c = ?n" "\<forall>d\<in>set post. chainId d \<noteq> ?n"
    for pre c post
  proof -
    have "find ?P (rev customs @ builtin) = Some c"
      unfolding that(1) using that(2,3) by (intro find_last_match) auto
    then show ?thesis by (simp add: go)
  qed
  have second: "\<exists>b\<in>set builtin. chainId b = ?n \<and> getCurrentChainConfig builtin net customs = Inr b"
    if none: "\<forall>c\<in>set customs. chainId c \<noteq> ?n" and some: "\<exists>b\<in>set builtin. chainId b = ?n"
  proof -
    have "find ?P (rev customs) = None" using none by (simp add: find_None_iff)
    moreover obtain b where b: "find ?P builtin = Some b"
      using some by (cases "find ?P builtin") (auto simp: find_None_iff)
    ultimately have "getCurrentChainConfig builtin net customs = Inr b"
      by (simp add: go find_append_cases)
    with find_Some_member [OF b] show ?thesis by auto
  qed
  show ?thesis using first second by blast
qed

text \<open>The three custom chains of the test file, observed id 5000: \<^verbatim>\<open>customChain2\<close>.\<close>

theorem getCurrentChainConfig_last_custom_witness:
  "network_name \<lparr> network_name = ''customChain2'', observed_chainId = 5000 \<rparr>
     \<noteq> HARDHAT_NETWORK_NAME
   \<and> customChains = [custom_chain ''customChain1'' 5000] @ custom_chain ''customChain2'' 5000
                       # [custom_chain ''customChain3'' 4999]
   \<and> getCurrentChainConfig [goerli] \<lparr> network_name = ''customChain2'', observed_chainId = 5000 \<rparr>
        customChains = Inr (custom_chain ''customChain2'' 5000)"
proof -
  let ?net = "\<lparr> network_name = ''customChain2'', observed_chainId = 5000 \<rparr>"
  have h: "network_name ?net = HARDHAT_NETWORK_NAME
      \<longrightarrow> (\<exists>c\<in>set customChains. network c = HARDHAT_NETWORK_NAME)"
    by (simp add: HARDHAT_NETWORK_NAME_def)
  have split: "customChains = [custom_chain ''customChain1'' 5000] @ custom_chain ''customChain2'' 5000
                       # [custom_chain ''customChain3'' 4999]"
    by (simp add: customChains_def)
  have id: "chainId (custom_chain ''customChain2'' 5000) = observed_chainId ?net"
    "\<forall>d\<in>set [custom_chain ''customChain3'' 4999]. chainId d \<noteq> observed_chainId ?net"
    by (simp_all add: custom_chain_def)
  from getCurrentChainConfig_last_custom [OF h, of "[goerli]"] split id
  have "getCurrentChainConfig [goerli] ?net customChains = Inr (custom_chain ''customChain2'' 5000)"
    by blast
  with split show ?thesis by (simp add: HARDHAT_NETWORK_NAME_def)
qed

text \<open>\<open>decimal\<close> writes the number that \<open>nat_of_digits\<close> reads.\<close>

lemma digit_val_digit_char: "d < 10 \<Longrightarrow> digit_val (digit_char d) = d"
proof -
  assume "d < 10"
  then have "d = 0 \<or> d = 1 \<or> d = 2 \<or> d = 3 \<or> d = 4 \<or> d = 5 \<or> d = 6 \<or> d = 7 \<or> d = 8 \<or> d = 9"
    by arith
  then show ?thesis
    by (elim disjE) (simp_all add: digit_val_def digit_char_def)
qed

lemma nat_of_digits_snoc: "nat_of_digits (xs @ [c]) = 10 * nat_of_digits xs + digit_val c"
  by (simp add: nat_of_digits_def)

lemma nat_of_digits_decimal: "nat_of_digits (decimal n) = n"
proof (induction n rule: decimal.induct)
  case (1 n)
  show ?case
  proof (cases "n < 10")
    case True
    then show ?thesis
      using nat_of_digits_snoc [of "[]" "digit_char n"]
      by (simp add: decimal.simps [of n] digit_val_digit_char nat_of_digits_def)
  next
    case False
    with 1 show ?thesis
      by (simp add: decimal.simps [of n] nat_of_digits_snoc digit_val_digit_char)
  qed
qed

text \<open>
  Claim C9.  The resolution fails in exactly two situations: the network name is the
  reserved one and no custom entry has that name, or no custom and no built-in entry
  matches the observed chain id.  In the first the error is the one for the reserved
  network; in the second alone, the error carries the observed id and its message holds
  the decimal numeral of that id.
\<close>

theorem getCurrentChainConfig_failures:
  "((\<exists>e. getCurrentChainConfig builtin net customs = Inl e) \<longleftrightarrow>
      (network_name net = HARDHAT_NETWORK_NAME
         \<and> (\<forall>c\<in>set customs. network c \<noteq> HARDHAT_NETWORK_NAME))
      \<or> (\<forall>c\<in>set customs \<union> set builtin. chainId c \<noteq> observed_chainId net))
   \<and> (network_name net = HARDHAT_NETWORK_NAME
         \<and> (\<forall>c\<in>set customs. network c \<noteq> HARDHAT_NETWORK_NAME)
       \<longrightarrow> getCurrentChainConfig builtin net customs = Inl HardhatNetworkNotSupportedError)
   \<and> (\<not> (network_name net = HARDHAT_NETWORK_NAME
            \<and> (\<forall>c\<in>set customs. network c \<noteq> HARDHAT_NETWORK_NAME))
       \<and> (\<forall>c\<in>set customs \<union> set builtin. chainId c \<noteq> observed_chainId net)
       \<longrightarrow> getCurrentChainConfig builtin net customs
             = Inl (ChainConfigNotFoundError (observed_chainId net))
           \<and> message (ChainConfigNotFoundError (observed_chainId net))
               = ''Trying to verify a contract in a network with chain id ''
                 @ decimal (observed_chainId net)
                 @ '', but the plugin doesn't recognize it as a supported chain.''
           \<and> nat_of_digits (decimal (observed_chainId net)) = observed_chainId net)"
proof -
  let ?n = "observed_chainId net"
  let ?P = "\<lambda>c. chainId c = ?n"
  have none: "find ?P (rev customs @ builtin) = None
                \<longleftrightarrow> (\<forall>c\<in>set customs \<union> set builtin. chainId c \<noteq> ?n)"
    by (auto simp: find_None_iff)
  show ?thesis
    using none
    by (auto simp: getCurrentChainConfig_def names_hardhat_iff matching_def nat_of_digits_decimal
        split: option.splits)
qed

theorem getCurrentChainConfig_failures_witness:
  "getCurrentChainConfig [goerli] \<lparr> network_name = ''hardhat'', observed_chainId = 31337 \<rparr> customChains
     = Inl HardhatNetworkNotSupportedError
   \<and> getCurrentChainConfig [goerli] \<lparr> network_name = ''someNetwork'', observed_chainId = 21343214123 \<rparr>
       customChains = Inl (ChainConfigNotFoundError 21343214123)
   \<and> message (ChainConfigNotFoundError 21343214123)
       = ''Trying to verify a contract in a network with chain id 21343214123, but the plugin doesn't recognize it as a supported chain.''"
proof -
  let ?hh = "\<lparr> network_name = ''hardhat'', observed_chainId = 31337 \<rparr>"
  let ?sn = "\<lparr> network_name = ''someNetwork'', observed_chainId = 21343214123 \<rparr>"
  have a: "network_name ?hh = HARDHAT_NETWORK_NAME
           \<and> (\<forall>c\<in>set customChains. network c \<noteq> HARDHAT_NETWORK_NAME)"
    by (simp add: HARDHAT_NETWORK_NAME_def customChains_def custom_chain_def)
  have b: "\<not> (network_name ?sn = HARDHAT_NETWORK_NAME
              \<and> (\<forall>c\<in>set customChains. network c \<noteq> HARDHAT_NETWORK_NAME))"
    by (simp add: HARDHAT_NETWORK_NAME_def)
  have c: "\<forall>c\<in>set customChains \<union> set [goerli]. chainId c \<noteq> observed_chainId ?sn"
    by (simp add: customChains_def custom_chain_def goerli_def)
  have d: "decimal 21343214123 = ''21343214123''"
    by (simp add: decimal.simps digit_char_def)
  from getCurrentChainConfig_failures [of "[goerli]" ?hh customChains] a
  have r1: "getCurrentChainConfig [goerli] ?hh customChains = Inl HardhatNetworkNotSupportedError"
    by blast
  from getCurrentChainConfig_failures [of "[goerli]" ?sn customChains] b c
  have r2: "getCurrentChainConfig [goerli] ?sn customChains
              = Inl (ChainConfigNotFoundError (observed_chainId ?sn))"
    by blast
  from r1 r2 d show ?thesis by simp
qed

end
